theory Spec2Isabelle
  imports Complex_Main
begin

section \<open>Values of the host language\<close>

text \<open>
  \<^verbatim>\<open>src/middleware.js\<close> compares \<^verbatim>\<open>response.status\<close> with the literals 200 and 299
  using the relational operators of JavaScript, which are defined on every value. The
  model therefore keeps the status as a primitive value of the language, not as an
  integer. A Number is NaN, an infinity or a finite value; the finite doubles are embedded
  in the rationals, which is exact here because the code only compares them (no
  arithmetic, no rounding). A status field that is missing reads as \<open>JUndefined\<close>.
  The type \<open>jsval\<close> holds the primitive values; a field that holds an object is treated
  in the section on fields of any kind.
\<close>

datatype jsnum = NaN | NegInf | Fin rat | PosInf

datatype jsval =
    JUndefined
  | JNull
  | JBoolean bool
  | JNumber jsnum
  | JBigInt int
  | JString string
  | JSymbol

text \<open>The operands of a comparison after ToNumeric: a Number or a BigInt.\<close>

datatype numeric = Num jsnum | Big int

section \<open>Errors, promises and the world\<close>

text \<open>
  Objects are addressed by references, so that "the same instance" is equality of
  references. \<open>ErrorWithResponse\<close> is the class of lines 37-45: its \<open>message\<close> is what
  \<^verbatim>\<open>super(response.statusText)\<close> stores and its \<open>response\<close> is the reference assigned
  in the constructor. \<open>TypeError\<close> is the error the language throws when a value cannot be
  converted to a number. \<open>Foreign\<close> stands for every error made outside the library: a
  transport failure, the parser's syntax error.
\<close>

type_synonym ref = nat

datatype 'e error =
    ErrorWithResponse (message: string) (response: ref)
  | TypeError
  | Foreign 'e

text \<open>
  A promise is modelled by how it settles: fulfilled with a value, rejected with a
  reason, or never settled.
\<close>

datatype ('a, 'r) promise = Fulfilled 'a | Rejected 'r | Pending

text \<open>
  How a handler passed to \<^verbatim>\<open>then\<close> completes: it returns a plain value, it returns a
  promise, or it throws.
\<close>

datatype ('a, 'r) completion =
    Return 'a
  | ReturnPromise "('a, 'r) promise"
  | Throw 'r

text \<open>
  The Exchange Result (the \<^verbatim>\<open>Response\<close> of the Flow annotations): \<open>status\<close>,
  \<open>statusText\<close> (a string, as the type declares) and the promise that a call of
  \<^verbatim>\<open>json()\<close> returns. The accessor belongs to the transport, so its outcome is a field
  of the object.
\<close>

record ('j, 'e) Response =
  status :: jsval
  statusText :: string
  json :: "('j, 'e error) promise"

text \<open>
  The world: the heap of Exchange Results and the log of the calls of \<^verbatim>\<open>json()\<close>, one
  reference per call, in order.
\<close>

record ('j, 'e) world =
  heap :: "ref \<Rightarrow> ('j, 'e) Response"
  jsonCalls :: "ref list"

section \<open>The relational operators\<close>

text \<open>
  ToNumber and ToNumeric on primitive values; \<open>None\<close> is the TypeError the language
  throws for a value that has no conversion. The conversion of a string to a Number
  (StringToNumber, with its rounding to a double) is the runtime's and is a parameter
  \<open>s2n\<close> of the model.
\<close>

fun ToNumber :: "(string \<Rightarrow> jsnum) \<Rightarrow> jsval \<Rightarrow> jsnum option" where
  "ToNumber s2n JUndefined = Some NaN"
| "ToNumber s2n JNull = Some (Fin 0)"
| "ToNumber s2n (JBoolean b) = Some (Fin (if b then 1 else 0))"
| "ToNumber s2n (JNumber n) = Some n"
| "ToNumber s2n (JString s) = Some (s2n s)"
| "ToNumber s2n (JBigInt i) = None"
| "ToNumber s2n JSymbol = None"

fun ToNumeric :: "(string \<Rightarrow> jsnum) \<Rightarrow> jsval \<Rightarrow> numeric option" where
  "ToNumeric s2n (JBigInt i) = Some (Big i)"
| "ToNumeric s2n v = map_option Num (ToNumber s2n v)"

text \<open>Number::lessThan: \<open>None\<close> is the result "undefined" (an operand is NaN).\<close>

fun Number_lessThan :: "jsnum \<Rightarrow> jsnum \<Rightarrow> bool option" where
  "Number_lessThan NaN y = None"
| "Number_lessThan x NaN = None"
| "Number_lessThan PosInf y = Some False"
| "Number_lessThan x PosInf = Some True"
| "Number_lessThan x NegInf = Some False"
| "Number_lessThan NegInf y = Some True"
| "Number_lessThan (Fin p) (Fin q) = Some (p < q)"

text \<open>
  IsLessThan on two numeric operands. A BigInt and a Number are compared by their
  mathematical values.
\<close>

fun IsLessThan :: "numeric \<Rightarrow> numeric \<Rightarrow> bool option" where
  "IsLessThan (Num x) (Num y) = Number_lessThan x y"
| "IsLessThan (Big i) (Big j) = Some (i < j)"
| "IsLessThan (Big i) (Num y) = Number_lessThan (Fin (of_int i)) y"
| "IsLessThan (Num x) (Big j) = Number_lessThan x (Fin (of_int j))"

text \<open>
  \<^verbatim>\<open>v >= n\<close> and \<^verbatim>\<open>v <= n\<close> for a Number literal \<open>n\<close>: \<open>v >= n\<close> is false when
  \<open>v < n\<close> is true or undefined, \<open>v <= n\<close> is false when \<open>n < v\<close> is true or undefined.
  The result \<open>None\<close> is the TypeError of the conversion.
\<close>

definition js_ge :: "(string \<Rightarrow> jsnum) \<Rightarrow> jsval \<Rightarrow> jsnum \<Rightarrow> bool option" where
  "js_ge s2n v n =
     (case ToNumeric s2n v of
        None \<Rightarrow> None
      | Some x \<Rightarrow> Some (case IsLessThan x (Num n) of Some False \<Rightarrow> True | _ \<Rightarrow> False))"

definition js_le :: "(string \<Rightarrow> jsnum) \<Rightarrow> jsval \<Rightarrow> jsnum \<Rightarrow> bool option" where
  "js_le s2n v n =
     (case ToNumeric s2n v of
        None \<Rightarrow> None
      | Some x \<Rightarrow> Some (case IsLessThan (Num n) x of Some False \<Rightarrow> True | _ \<Rightarrow> False))"

text \<open>
  The condition of line 65, \<^verbatim>\<open>status >= 200 && status <= 299\<close>: \<^verbatim>\<open>&&\<close> evaluates its
  right operand only when the left one is true.
\<close>

definition status_in_2xx :: "(string \<Rightarrow> jsnum) \<Rightarrow> jsval \<Rightarrow> bool option" where
  "status_in_2xx s2n st =
     (case js_ge s2n st (Fin 200) of
        None \<Rightarrow> None
      | Some False \<Rightarrow> Some False
      | Some True \<Rightarrow> js_le s2n st (Fin 299))"

section \<open>Promise operations\<close>

text \<open>
  \<^verbatim>\<open>promise.then(onFulfilled)\<close> with no rejection handler. A fulfilled promise runs the
  handler: a returned value fulfils the new promise, a returned promise is adopted, an
  exception rejects it. A rejected promise passes its reason on without running the
  handler, and a promise that never settles yields one that never settles.
\<close>

definition Promise_then ::
  "('a, 'r) promise \<Rightarrow> ('a \<Rightarrow> 'w \<Rightarrow> ('b, 'r) completion \<times> 'w) \<Rightarrow> 'w \<Rightarrow> ('b, 'r) promise \<times> 'w"
where
  "Promise_then p onFulfilled w =
     (case p of
        Fulfilled v \<Rightarrow>
          (case onFulfilled v w of
             (Return x, w') \<Rightarrow> (Fulfilled x, w')
           | (ReturnPromise q, w') \<Rightarrow> (q, w')
           | (Throw e, w') \<Rightarrow> (Rejected e, w'))
      | Rejected e \<Rightarrow> (Rejected e, w)
      | Pending \<Rightarrow> (Pending, w))"

definition Promise_reject :: "'r \<Rightarrow> ('a, 'r) promise" where
  "Promise_reject e = Rejected e"

text \<open>A call of \<^verbatim>\<open>response.json()\<close>: the call is logged and the accessor's promise returned.\<close>

definition call_json :: "ref \<Rightarrow> ('j, 'e) world \<Rightarrow> ('j, 'e error) promise \<times> ('j, 'e) world" where
  "call_json r w = (json (heap w r), w\<lparr>jsonCalls := jsonCalls w @ [r]\<rparr>)"

section \<open>The library\<close>

text \<open>
  The constructor of \<^verbatim>\<open>ErrorWithResponse\<close> (lines 40-44): the message is the status
  text of the response, the field \<open>response\<close> is the reference it was given. It reads no
  other field.
\<close>

definition new_ErrorWithResponse :: "ref \<Rightarrow> ('j, 'e) world \<Rightarrow> 'e error" where
  "new_ErrorWithResponse r w = ErrorWithResponse (statusText (heap w r)) r"

text \<open>
  The fulfilment handler of \<^verbatim>\<open>checkStatus\<close> (lines 62-70). An exception of the
  condition leaves the handler before either branch is taken.
\<close>

definition checkStatus_handler ::
  "(string \<Rightarrow> jsnum) \<Rightarrow> ref \<Rightarrow> ('j, 'e) world \<Rightarrow> (ref, 'e error) completion \<times> ('j, 'e) world"
where
  "checkStatus_handler s2n r w =
     (let st = status (heap w r) in
      case status_in_2xx s2n st of
        None \<Rightarrow> (Throw TypeError, w)
      | Some True \<Rightarrow> (Return r, w)
      | Some False \<Rightarrow> (ReturnPromise (Promise_reject (new_ErrorWithResponse r w)), w))"

definition checkStatus ::
  "(string \<Rightarrow> jsnum) \<Rightarrow> (ref, 'e error) promise \<Rightarrow> ('j, 'e) world
     \<Rightarrow> (ref, 'e error) promise \<times> ('j, 'e) world"
where
  "checkStatus s2n p w = Promise_then p (checkStatus_handler s2n) w"

text \<open>The fulfilment handler of \<^verbatim>\<open>parseJSON\<close> (lines 82-84) returns the accessor's promise.\<close>

definition parseJSON_handler ::
  "ref \<Rightarrow> ('j, 'e) world \<Rightarrow> ('j, 'e error) completion \<times> ('j, 'e) world"
where
  "parseJSON_handler r w = (case call_json r w of (q, w') \<Rightarrow> (ReturnPromise q, w'))"

definition parseJSON ::
  "(ref, 'e error) promise \<Rightarrow> ('j, 'e) world \<Rightarrow> ('j, 'e error) promise \<times> ('j, 'e) world"
where
  "parseJSON p w = Promise_then p parseJSON_handler w"

text \<open>The chain \<^verbatim>\<open>parseJSON(checkStatus(p))\<close>, the world threaded through both.\<close>

definition parseJSON_checkStatus ::
  "(string \<Rightarrow> jsnum) \<Rightarrow> (ref, 'e error) promise \<Rightarrow> ('j, 'e) world
     \<Rightarrow> ('j, 'e error) promise \<times> ('j, 'e) world"
where
  "parseJSON_checkStatus s2n p w = (case checkStatus s2n p w of (q, w') \<Rightarrow> parseJSON q w')"

section \<open>The handler on fields of any kind\<close>













text \<open>
  Concrete inputs for the examples: a string conversion, a parsed body (the mapping
  \<^verbatim>\<open>{"a": 1}\<close> as an association list) and worlds in which every reference holds the
  same Exchange Result.
\<close>

definition s2n0 :: "string \<Rightarrow> jsnum" where
  "s2n0 s = (if s = ''250'' then Fin 250 else NaN)"




type_synonym body = "(string \<times> int) list"

definition world0 :: "jsval \<Rightarrow> string \<Rightarrow> (body, string) world" where
  "world0 st txt =
     \<lparr>heap = (\<lambda>r. \<lparr>status = st, statusText = txt, json = Fulfilled [(''a'', 1)]\<rparr>),
      jsonCalls = []\<rparr>"

definition world_bad :: "(body, string) world" where
  "world_bad =
     \<lparr>heap = (\<lambda>r. \<lparr>status = JNumber (Fin 200), statusText = ''OK'',
                    json = Rejected (Foreign ''SyntaxError'')\<rparr>),
      jsonCalls = []\<rparr>"

section \<open>Lemmas on the condition and on the two functions\<close>

lemma status_in_2xx_Number:
  "status_in_2xx s2n (JNumber c) =
     Some (Number_lessThan c (Fin 200) = Some False \<and> Number_lessThan (Fin 299) c = Some False)"
  by (cases c) (auto simp: status_in_2xx_def js_ge_def js_le_def split: bool.splits)

lemma status_in_2xx_Fin:
  "status_in_2xx s2n (JNumber (Fin c)) = Some (200 \<le> c \<and> c \<le> 299)"
  by (auto simp: status_in_2xx_Number)



lemma checkStatus_Fulfilled:
  "checkStatus s2n (Fulfilled r) w =
     (case status_in_2xx s2n (status (heap w r)) of
        None \<Rightarrow> (Rejected TypeError, w)
      | Some True \<Rightarrow> (Fulfilled r, w)
      | Some False \<Rightarrow> (Rejected (new_ErrorWithResponse r w), w))"
  by (simp add: checkStatus_def Promise_then_def checkStatus_handler_def Promise_reject_def
      split: option.splits bool.splits)

lemma checkStatus_Rejected: "checkStatus s2n (Rejected e) w = (Rejected e, w)"
  by (simp add: checkStatus_def Promise_then_def)

lemma parseJSON_Fulfilled:
  "parseJSON (Fulfilled r) w = (json (heap w r), w\<lparr>jsonCalls := jsonCalls w @ [r]\<rparr>)"
  by (simp add: parseJSON_def Promise_then_def parseJSON_handler_def call_json_def)

lemma parseJSON_Rejected: "parseJSON (Rejected e) w = (Rejected e, w)"
  by (simp add: parseJSON_def Promise_then_def)

section \<open>The claims\<close>

text \<open>
  C1. Gate: when the input promise is fulfilled with the reference \<open>r\<close> of an Exchange
  Result whose status is a number \<open>c\<close> with \<open>c < 200\<close> or \<open>c > 299\<close> (as the language
  compares numbers), \<open>checkStatus\<close> returns a promise rejected with an
  \<open>ErrorWithResponse\<close> whose \<open>response\<close> is \<open>r\<close> itself and whose \<open>message\<close> is the
  status text of that Exchange Result.
\<close>

theorem checkStatus_gate:
  assumes "status (heap w r) = JNumber c"
    and "Number_lessThan c (Fin 200) = Some True \<or> Number_lessThan (Fin 299) c = Some True"
  shows "checkStatus s2n (Fulfilled r) w
           = (Rejected (ErrorWithResponse (statusText (heap w r)) r), w)"
proof -
  from assms(2) have "status_in_2xx s2n (JNumber c) = Some False"
    by (auto simp: status_in_2xx_Number)
  with assms(1) show ?thesis
    by (simp add: checkStatus_Fulfilled new_ErrorWithResponse_def)
qed

theorem checkStatus_gate_witness:
  "status (heap (world0 (JNumber (Fin 500)) ''Server Error'') 7) = JNumber (Fin 500)
   \<and> Number_lessThan (Fin 299) (Fin 500) = Some True
   \<and> checkStatus s2n0 (Fulfilled 7) (world0 (JNumber (Fin 500)) ''Server Error'')
       = (Rejected (ErrorWithResponse ''Server Error'' 7),
          world0 (JNumber (Fin 500)) ''Server Error'')"
  using checkStatus_gate [of "world0 (JNumber (Fin 500)) ''Server Error''" 7 "Fin 500" s2n0]
  by (simp add: world0_def)

text \<open>
  C2. Pass-through: when the input promise is fulfilled with the reference \<open>r\<close> of an
  Exchange Result whose status is a number \<open>c\<close> with \<open>200 \<le> c \<le> 299\<close>, \<open>checkStatus\<close>
  returns a promise fulfilled with the same reference, and the world (the heap, hence the
  object itself, and the call log) is unchanged.
\<close>

theorem checkStatus_pass_through:
  assumes "status (heap w r) = JNumber (Fin c)" and "200 \<le> c" and "c \<le> 299"
  shows "checkStatus s2n (Fulfilled r) w = (Fulfilled r, w)"
  using assms by (simp add: checkStatus_Fulfilled status_in_2xx_Fin)

theorem checkStatus_pass_through_witness:
  "status (heap (world0 (JNumber (Fin 204)) ''No Content'') 3) = JNumber (Fin 204)
   \<and> (200::rat) \<le> 204 \<and> (204::rat) \<le> 299
   \<and> checkStatus s2n0 (Fulfilled 3) (world0 (JNumber (Fin 204)) ''No Content'')
       = (Fulfilled 3, world0 (JNumber (Fin 204)) ''No Content'')"
  using checkStatus_pass_through [of "world0 (JNumber (Fin 204)) ''No Content''" 3 204 s2n0]
  by (simp add: world0_def)

text \<open>
  C3. Boundaries: a status of 199 is rejected, 200 is fulfilled, 299 is fulfilled and 300
  is rejected; both bounds of the range belong to it.
\<close>

theorem checkStatus_boundaries:
  "(status (heap w r) = JNumber (Fin 199) \<longrightarrow>
      checkStatus s2n (Fulfilled r) w
        = (Rejected (ErrorWithResponse (statusText (heap w r)) r), w))
   \<and> (status (heap w r) = JNumber (Fin 200) \<longrightarrow>
      checkStatus s2n (Fulfilled r) w = (Fulfilled r, w))
   \<and> (status (heap w r) = JNumber (Fin 299) \<longrightarrow>
      checkStatus s2n (Fulfilled r) w = (Fulfilled r, w))
   \<and> (status (heap w r) = JNumber (Fin 300) \<longrightarrow>
      checkStatus s2n (Fulfilled r) w
        = (Rejected (ErrorWithResponse (statusText (heap w r)) r), w))"
  by (simp add: checkStatus_Fulfilled status_in_2xx_Fin new_ErrorWithResponse_def)

theorem checkStatus_boundaries_witness:
  "checkStatus s2n0 (Fulfilled 1) (world0 (JNumber (Fin 199)) ''a'')
     = (Rejected (ErrorWithResponse ''a'' 1), world0 (JNumber (Fin 199)) ''a'')
   \<and> checkStatus s2n0 (Fulfilled 1) (world0 (JNumber (Fin 200)) ''b'')
     = (Fulfilled 1, world0 (JNumber (Fin 200)) ''b'')
   \<and> checkStatus s2n0 (Fulfilled 1) (world0 (JNumber (Fin 299)) ''c'')
     = (Fulfilled 1, world0 (JNumber (Fin 299)) ''c'')
   \<and> checkStatus s2n0 (Fulfilled 1) (world0 (JNumber (Fin 300)) ''d'')
     = (Rejected (ErrorWithResponse ''d'' 1), world0 (JNumber (Fin 300)) ''d'')"
  using checkStatus_boundaries [of "world0 (JNumber (Fin 199)) ''a''" 1 s2n0]
    checkStatus_boundaries [of "world0 (JNumber (Fin 200)) ''b''" 1 s2n0]
    checkStatus_boundaries [of "world0 (JNumber (Fin 299)) ''c''" 1 s2n0]
    checkStatus_boundaries [of "world0 (JNumber (Fin 300)) ''d''" 1 s2n0]
  by (simp add: world0_def)

text \<open>
  C4. Transparency: when the input promise is rejected with an error \<open>e\<close>, both
  \<open>checkStatus\<close> and \<open>parseJSON\<close> return a promise rejected with \<open>e\<close> itself; neither
  runs its handler, so the world is unchanged as well.
\<close>

theorem rejected_input_passes_through:
  "checkStatus s2n (Rejected e) w = (Rejected e, w)
   \<and> parseJSON (Rejected e) w = (Rejected e, w)"
  by (simp add: checkStatus_Rejected parseJSON_Rejected)

theorem rejected_input_passes_through_witness:
  "checkStatus s2n0 (Rejected (Foreign ''Failed to fetch'')) world_bad
     = (Rejected (Foreign ''Failed to fetch''), world_bad)
   \<and> parseJSON (Rejected (Foreign ''Failed to fetch'')) world_bad
     = (Rejected (Foreign ''Failed to fetch''), world_bad)"
  using rejected_input_passes_through [of s2n0 "Foreign ''Failed to fetch''" world_bad]
  by simp

text \<open>
  C5. Delegation: when the accessor of the Exchange Result at \<open>r\<close> yields a promise
  fulfilled with \<open>V\<close>, \<open>parseJSON\<close> of a promise fulfilled with \<open>r\<close> is fulfilled with
  \<open>V\<close>; the accessor has been called once, on \<open>r\<close>.
\<close>

theorem parseJSON_delegation:
  assumes "json (heap w r) = Fulfilled V"
  shows "parseJSON (Fulfilled r) w = (Fulfilled V, w\<lparr>jsonCalls := jsonCalls w @ [r]\<rparr>)"
  using assms by (simp add: parseJSON_Fulfilled)

theorem parseJSON_delegation_witness:
  "json (heap (world0 (JNumber (Fin 200)) ''OK'') 2) = Fulfilled [(''a'', 1)]
   \<and> fst (parseJSON (Fulfilled 2) (world0 (JNumber (Fin 200)) ''OK'')) = Fulfilled [(''a'', 1)]
   \<and> jsonCalls (snd (parseJSON (Fulfilled 2) (world0 (JNumber (Fin 200)) ''OK''))) = [2]"
  using parseJSON_delegation [of "world0 (JNumber (Fin 200)) ''OK''" 2 "[(''a'', 1)]"]
  by (simp add: world0_def)

text \<open>
  C6. Failure propagation: when the accessor of the Exchange Result at \<open>r\<close> yields a
  promise rejected with \<open>e\<close>, \<open>parseJSON\<close> of a promise fulfilled with \<open>r\<close> is rejected
  with \<open>e\<close> itself, not wrapped and with nothing added.
\<close>

theorem parseJSON_failure_propagation:
  assumes "json (heap w r) = Rejected e"
  shows "parseJSON (Fulfilled r) w = (Rejected e, w\<lparr>jsonCalls := jsonCalls w @ [r]\<rparr>)"
  using assms by (simp add: parseJSON_Fulfilled)

theorem parseJSON_failure_propagation_witness:
  "json (heap world_bad 5) = Rejected (Foreign ''SyntaxError'')
   \<and> fst (parseJSON (Fulfilled 5) world_bad) = Rejected (Foreign ''SyntaxError'')"
  using parseJSON_failure_propagation [of world_bad 5 "Foreign ''SyntaxError''"]
  by (simp add: world_bad_def)

text \<open>
  C7. Composition: for an Exchange Result at \<open>r\<close> with status 404, the chain
  \<^verbatim>\<open>parseJSON(checkStatus(p))\<close> on a promise fulfilled with \<open>r\<close> is rejected with the
  \<open>ErrorWithResponse\<close> for \<open>r\<close>, and the log of the calls of the accessor is what it was:
  the accessor is not called.
\<close>

theorem chain_404_rejects_without_parsing:
  assumes "status (heap w r) = JNumber (Fin 404)"
  shows "fst (parseJSON_checkStatus s2n (Fulfilled r) w)
           = Rejected (ErrorWithResponse (statusText (heap w r)) r)
         \<and> jsonCalls (snd (parseJSON_checkStatus s2n (Fulfilled r) w)) = jsonCalls w"
  using assms
  by (simp add: parseJSON_checkStatus_def checkStatus_Fulfilled status_in_2xx_Fin
      parseJSON_Rejected new_ErrorWithResponse_def)

theorem chain_404_rejects_without_parsing_witness:
  "status (heap (world0 (JNumber (Fin 404)) ''Not Found'') 4) = JNumber (Fin 404)
   \<and> fst (parseJSON_checkStatus s2n0 (Fulfilled 4) (world0 (JNumber (Fin 404)) ''Not Found''))
       = Rejected (ErrorWithResponse ''Not Found'' 4)
   \<and> jsonCalls (snd (parseJSON_checkStatus s2n0 (Fulfilled 4)
        (world0 (JNumber (Fin 404)) ''Not Found''))) = []"
  using chain_404_rejects_without_parsing [of "world0 (JNumber (Fin 404)) ''Not Found''" 4 s2n0]
  by (simp add: world0_def)

text \<open>
  C8. Every \<open>ErrorWithResponse\<close> the library produces wraps an Exchange Result whose
  status is outside the range. The constructor does not look at the status: it builds
  the same error whatever status the Exchange Result is given, a status in the range
  included (first conjunct). The guarantee comes from \<open>checkStatus\<close>: whenever its result
  is rejected with an \<open>ErrorWithResponse\<close>, either the input promise was already rejected
  with that error (it was not made here), or the input was fulfilled with the wrapped
  Exchange Result, the condition of line 65 was false for its status and, when that status
  is a number, it is below 200 or above 299 (second conjunct). Conversely the error is
  constructed whenever the condition is false (third conjunct).
\<close>

theorem ErrorWithResponse_only_outside_2xx:
  "new_ErrorWithResponse r (w\<lparr>heap := (heap w)(r := (heap w r)\<lparr>status := st\<rparr>)\<rparr>)
     = ErrorWithResponse (statusText (heap w r)) r
   \<and> (fst (checkStatus s2n p w) = Rejected (ErrorWithResponse m x) \<longrightarrow>
        p = Rejected (ErrorWithResponse m x)
        \<or> (p = Fulfilled x \<and> m = statusText (heap w x)
            \<and> status_in_2xx s2n (status (heap w x)) = Some False
            \<and> (\<forall>c. status (heap w x) = JNumber (Fin c) \<longrightarrow> c < 200 \<or> 299 < c)))
   \<and> (status_in_2xx s2n (status (heap w r)) = Some False \<longrightarrow>
        fst (checkStatus s2n (Fulfilled r) w)
          = Rejected (ErrorWithResponse (statusText (heap w r)) r))"
proof (intro conjI impI)
  show "new_ErrorWithResponse r (w\<lparr>heap := (heap w)(r := (heap w r)\<lparr>status := st\<rparr>)\<rparr>)
          = ErrorWithResponse (statusText (heap w r)) r"
    by (simp add: new_ErrorWithResponse_def)
next
  assume rej: "fst (checkStatus s2n p w) = Rejected (ErrorWithResponse m x)"
  show "p = Rejected (ErrorWithResponse m x)
        \<or> (p = Fulfilled x \<and> m = statusText (heap w x)
            \<and> status_in_2xx s2n (status (heap w x)) = Some False
            \<and> (\<forall>c. status (heap w x) = JNumber (Fin c) \<longrightarrow> c < 200 \<or> 299 < c))"
  proof (cases p)
    case (Fulfilled r')
    with rej have "r' = x \<and> m = statusText (heap w x)
        \<and> status_in_2xx s2n (status (heap w x)) = Some False"
      by (auto simp: checkStatus_Fulfilled new_ErrorWithResponse_def
          split: option.splits bool.splits)
    moreover from this
    have "\<forall>c. status (heap w x) = JNumber (Fin c) \<longrightarrow> c < 200 \<or> 299 < c"
      by (auto simp: status_in_2xx_Fin)
    ultimately show ?thesis using Fulfilled by simp
  next
    case (Rejected e)
    with rej show ?thesis by (simp add: checkStatus_Rejected)
  next
    case Pending
    with rej show ?thesis by (simp add: checkStatus_def Promise_then_def)
  qed
next
  assume "status_in_2xx s2n (status (heap w r)) = Some False"
  then show "fst (checkStatus s2n (Fulfilled r) w)
          = Rejected (ErrorWithResponse (statusText (heap w r)) r)"
    by (simp add: checkStatus_Fulfilled new_ErrorWithResponse_def)
qed

theorem ErrorWithResponse_only_outside_2xx_witness:
  "new_ErrorWithResponse 6
      ((world0 (JNumber (Fin 503)) ''Unavailable'')
         \<lparr>heap := (heap (world0 (JNumber (Fin 503)) ''Unavailable''))
            (6 := (heap (world0 (JNumber (Fin 503)) ''Unavailable'') 6)
                    \<lparr>status := JNumber (Fin 200)\<rparr>)\<rparr>)
     = ErrorWithResponse ''Unavailable'' 6
   \<and> fst (checkStatus s2n0 (Fulfilled 6) (world0 (JNumber (Fin 503)) ''Unavailable''))
       = Rejected (ErrorWithResponse ''Unavailable'' 6)
   \<and> status_in_2xx s2n0 (status (heap (world0 (JNumber (Fin 503)) ''Unavailable'') 6))
       = Some False
   \<and> (299::rat) < 503"
  using ErrorWithResponse_only_outside_2xx
    [of 6 "world0 (JNumber (Fin 503)) ''Unavailable''" "JNumber (Fin 200)" s2n0
        "Fulfilled 6" "''Unavailable''" 6]
  by (simp add: world0_def status_in_2xx_Fin)

text \<open>
  C9. \<open>parseJSON\<close> does not look at the status: on a promise fulfilled with \<open>r\<close> it calls
  the accessor of \<open>r\<close> and its result is the accessor's promise, whatever the status
  (first conjunct); giving the Exchange Result any other status changes nothing in the
  result (second conjunct), so a status outside the range with a body that parses is
  fulfilled. It makes no \<open>ErrorWithResponse\<close> of its own: when its result is rejected
  with one, that error was the reason of the input promise or of the accessor's promise
  (third conjunct).
\<close>

theorem parseJSON_ignores_status:
  "parseJSON (Fulfilled r) w = (json (heap w r), w\<lparr>jsonCalls := jsonCalls w @ [r]\<rparr>)
   \<and> fst (parseJSON (Fulfilled r) (w\<lparr>heap := (heap w)(r := (heap w r)\<lparr>status := st\<rparr>)\<rparr>))
       = fst (parseJSON (Fulfilled r) w)
   \<and> (fst (parseJSON p w) = Rejected (ErrorWithResponse m x) \<longrightarrow>
        p = Rejected (ErrorWithResponse m x)
        \<or> (\<exists>r'. p = Fulfilled r' \<and> json (heap w r') = Rejected (ErrorWithResponse m x)))"
proof (intro conjI impI)
  show "parseJSON (Fulfilled r) w = (json (heap w r), w\<lparr>jsonCalls := jsonCalls w @ [r]\<rparr>)"
    by (rule parseJSON_Fulfilled)
next
  show "fst (parseJSON (Fulfilled r) (w\<lparr>heap := (heap w)(r := (heap w r)\<lparr>status := st\<rparr>)\<rparr>))
          = fst (parseJSON (Fulfilled r) w)"
    by (simp add: parseJSON_Fulfilled)
next
  assume rej: "fst (parseJSON p w) = Rejected (ErrorWithResponse m x)"
  show "p = Rejected (ErrorWithResponse m x)
        \<or> (\<exists>r'. p = Fulfilled r' \<and> json (heap w r') = Rejected (ErrorWithResponse m x))"
  proof (cases p)
    case (Fulfilled r')
    with rej show ?thesis by (simp add: parseJSON_Fulfilled)
  next
    case (Rejected e)
    with rej show ?thesis by (simp add: parseJSON_Rejected)
  next
    case Pending
    with rej show ?thesis by (simp add: parseJSON_def Promise_then_def)
  qed
qed

theorem parseJSON_ignores_status_witness:
  "parseJSON (Fulfilled 8) (world0 (JNumber (Fin 404)) ''Not Found'')
     = (Fulfilled [(''a'', 1)], (world0 (JNumber (Fin 404)) ''Not Found'')\<lparr>jsonCalls := [8]\<rparr>)
   \<and> fst (parseJSON (Rejected (ErrorWithResponse ''Gone'' 9))
            (world0 (JNumber (Fin 404)) ''Not Found''))
       = Rejected (ErrorWithResponse ''Gone'' 9)"
  using parseJSON_ignores_status
    [of 8 "world0 (JNumber (Fin 404)) ''Not Found''" "JNumber (Fin 200)"
        "Rejected (ErrorWithResponse ''Gone'' 9)" "''Gone''" 9]
  by (simp add: world0_def parseJSON_Rejected)

section \<open>Lemmas on fields of any kind\<close>








section \<open>The claim on the default branch\<close>




end
